theory Spec2Isabelle
  imports Main
begin

section \<open>JavaScript strings and the built-ins the repository calls\<close>

text \<open>
  A JavaScript string is modelled as a \<^typ>\<open>string\<close>: a list of code units, here the
  code units below 256 (Latin-1). The character classes below are the ones the regular
  expressions and string methods of the repository use, read on that range:
  \<^item> \<open>\s\<close> and \<open>trim()\<close>: TAB, LF, VT, FF, CR, SPACE and NBSP;
  \<^item> \<open>.\<close>: every code unit that is not a line terminator (LF, CR);
  \<^item> \<open>\w\<close> (and so \<open>\b\<close>): \<open>[A-Za-z0-9_]\<close>;
  \<^item> \<open>\d\<close>: \<open>[0-9]\<close>.
\<close>

definition dq :: char where "dq = CHR 0x22"
definition sq :: char where "sq = CHR 0x27"
definition bs :: char where "bs = CHR 0x5C"
definition lf :: char where "lf = CHR 0x0A"

definition isSpace :: "char \<Rightarrow> bool" where
  "isSpace c \<longleftrightarrow> c \<in> set [CHR 0x09, CHR 0x0A, CHR 0x0B, CHR 0x0C, CHR 0x0D, CHR 0x20, CHR 0xA0]"

definition isLineTerminator :: "char \<Rightarrow> bool" where
  "isLineTerminator c \<longleftrightarrow> c = CHR 0x0A \<or> c = CHR 0x0D"

definition isUpper :: "char \<Rightarrow> bool" where
  "isUpper c \<longleftrightarrow> (65::nat) \<le> of_char c \<and> (of_char c :: nat) \<le> 90"

definition isLower :: "char \<Rightarrow> bool" where
  "isLower c \<longleftrightarrow> (97::nat) \<le> of_char c \<and> (of_char c :: nat) \<le> 122"

definition isDigit :: "char \<Rightarrow> bool" where
  "isDigit c \<longleftrightarrow> (48::nat) \<le> of_char c \<and> (of_char c :: nat) \<le> 57"

definition isWordChar :: "char \<Rightarrow> bool" where
  "isWordChar c \<longleftrightarrow> isUpper c \<or> isLower c \<or> isDigit c \<or> c = CHR ''_''"

text \<open>\<open>[a-zA-Z_$]\<close> and \<open>[a-zA-Z0-9_$]\<close>, the two classes of the key-quoting pass.\<close>

definition isIdentStart :: "char \<Rightarrow> bool" where
  "isIdentStart c \<longleftrightarrow> isUpper c \<or> isLower c \<or> c = CHR ''_'' \<or> c = CHR ''$''"

definition isIdentPart :: "char \<Rightarrow> bool" where
  "isIdentPart c \<longleftrightarrow> isIdentStart c \<or> isDigit c"

text \<open>\<open>String.prototype.trim\<close>.\<close>

definition trim :: "string \<Rightarrow> string" where
  "trim s = rev (dropWhile isSpace (rev (dropWhile isSpace s)))"

text \<open>
  \<open>String.prototype.toLowerCase\<close> on Latin-1: \<open>A-Z\<close> and the accented capitals
  \<open>0xC0-0xDE\<close> (without the multiplication sign \<open>0xD7\<close>) move up by 32.
\<close>

definition lowerChar :: "char \<Rightarrow> char" where
  "lowerChar c =
     (let n = (of_char c :: nat)
      in if (65 \<le> n \<and> n \<le> 90) \<or> (192 \<le> n \<and> n \<le> 222 \<and> n \<noteq> 215)
         then char_of (n + 32) else c)"

definition toLowerCase :: "string \<Rightarrow> string" where
  "toLowerCase s = map lowerChar s"

text \<open>\<open>String.prototype.startsWith\<close> and \<open>String.prototype.includes\<close>.\<close>

fun startsWith :: "string \<Rightarrow> string \<Rightarrow> bool" where
  "startsWith s [] = True"
| "startsWith [] (p # ps) = False"
| "startsWith (c # cs) (p # ps) = (c = p \<and> startsWith cs ps)"

fun includes_str :: "string \<Rightarrow> string \<Rightarrow> bool" where
  "includes_str [] t = (t = [])"
| "includes_str (c # cs) t = (startsWith (c # cs) t \<or> includes_str cs t)"


section \<open>jsonUtils: the repair pipeline of \<open>fixJson\<close>\<close>

text \<open>
  Every pass is \<open>s.replace(/re/g, ...)\<close>: the text is scanned from the left; where the
  expression matches, the replacement is emitted and the scan goes on behind the match;
  where it does not, the code unit is copied. A matcher gives, for the text at the
  current position, the replacement and the text behind the match. A match that consumes
  nothing emits its replacement, copies one code unit and moves on, as \<open>replace\<close> does
  (none of the expressions of \<open>fixJson\<close> has such a match).

  None of the expressions can match in two ways at one position (each greedy run is ended
  by a code unit outside its class), so each matcher is a deterministic scan.
\<close>

function replaceAll :: "(string \<Rightarrow> (string \<times> string) option) \<Rightarrow> string \<Rightarrow> string" where
  "replaceAll m [] = (case m [] of Some (out, r) \<Rightarrow> out | None \<Rightarrow> [])"
| "replaceAll m (c # cs) =
     (case m (c # cs) of
        Some (out, r) \<Rightarrow>
          if length r < length (c # cs) then out @ replaceAll m r
          else out @ c # replaceAll m cs
      | None \<Rightarrow> c # replaceAll m cs)"
  by pat_completeness auto
termination
  by (relation "measure (\<lambda>(m, s). length s)") auto

subsection \<open>Passes 1 and 2: comments, with the string-literal alternative\<close>

text \<open>
  \<open>strBody\<close> matches \<open>(?:[^"\\]|\\.)*"\<close>, the rest of a double-quoted literal behind its
  opening quote, and gives the matched text and what follows it.
\<close>

fun strBody :: "string \<Rightarrow> (string \<times> string) option" where
  "strBody [] = None"
| "strBody (c # cs) =
     (if c = dq then Some ([c], cs)
      else if c = bs then
        (case cs of
           [] \<Rightarrow> None
         | d # ds \<Rightarrow>
             if isLineTerminator d then None
             else map_option (\<lambda>(m, r). (c # d # m, r)) (strBody ds))
      else map_option (\<lambda>(m, r). (c # m, r)) (strBody cs))"

text \<open>
  Pass 1: \<open>/("(?:[^"\\]|\\.)*")|\/\/[^\n]*/g\<close> with the callback
  \<open>(m, str) => str !== undefined ? str : ''\<close>: a string literal is put back, a line
  comment is dropped up to (not including) the line feed.
\<close>

fun lineCommentRe :: "string \<Rightarrow> (string \<times> string) option" where
  "lineCommentRe [] = None"
| "lineCommentRe (c # cs) =
     (if c = dq then
        (case strBody cs of Some (m, r) \<Rightarrow> Some (c # m, r) | None \<Rightarrow> None)
      else if c = CHR ''/'' \<and> startsWith cs ''/''
        then Some ([], dropWhile (\<lambda>x. x \<noteq> lf) (tl cs))
      else None)"

definition stripLineComments :: "string \<Rightarrow> string" where
  "stripLineComments s = replaceAll lineCommentRe s"

text \<open>\<open>untilStarSlash\<close> matches \<open>[\s\S]*?\*\/\<close>: everything up to the first \<open>*/\<close>.\<close>

fun untilStarSlash :: "string \<Rightarrow> string option" where
  "untilStarSlash (c # d # cs) =
     (if c = CHR ''*'' \<and> d = CHR ''/'' then Some cs else untilStarSlash (d # cs))"
| "untilStarSlash cs = None"

text \<open>Pass 2: \<open>/("(?:[^"\\]|\\.)*")|\/\*[\s\S]*?\*\//g\<close>, same callback.\<close>

fun blockCommentRe :: "string \<Rightarrow> (string \<times> string) option" where
  "blockCommentRe [] = None"
| "blockCommentRe (c # cs) =
     (if c = dq then
        (case strBody cs of Some (m, r) \<Rightarrow> Some (c # m, r) | None \<Rightarrow> None)
      else if c = CHR ''/'' \<and> startsWith cs ''*'' then
        (case untilStarSlash (tl cs) of Some r \<Rightarrow> Some ([], r) | None \<Rightarrow> None)
      else None)"

definition stripBlockComments :: "string \<Rightarrow> string" where
  "stripBlockComments s = replaceAll blockCommentRe s"

subsection \<open>Pass 3: Python and JavaScript literals\<close>

text \<open>
  \<open>/\bTrue\b/g\<close> and its three siblings. \<open>\b\<close> holds between two positions when exactly
  one of the neighbouring code units is a word character (the ends of the text count as
  non-word), so the scan carries the code unit before the current position. The
  expressions have no string-literal alternative.
\<close>

definition isWordOpt :: "char option \<Rightarrow> bool" where
  "isWordOpt x = (case x of None \<Rightarrow> False | Some c \<Rightarrow> isWordChar c)"

definition wordBoundary :: "char option \<Rightarrow> char option \<Rightarrow> bool" where
  "wordBoundary prev next \<longleftrightarrow> isWordOpt prev \<noteq> isWordOpt next"

definition headOpt :: "string \<Rightarrow> char option" where
  "headOpt s = (case s of [] \<Rightarrow> None | c # _ \<Rightarrow> Some c)"

function replaceWord :: "string \<Rightarrow> string \<Rightarrow> char option \<Rightarrow> string \<Rightarrow> string" where
  "replaceWord w r prev [] = []"
| "replaceWord w r prev (c # cs) =
     (if w \<noteq> [] \<and> wordBoundary prev (Some c) \<and> startsWith (c # cs) w
         \<and> wordBoundary (Some (last w)) (headOpt (drop (length w - 1) cs))
      then r @ replaceWord w r (Some (last w)) (drop (length w - 1) cs)
      else c # replaceWord w r (Some c) cs)"
  by pat_completeness auto
termination
  by (relation "measure (\<lambda>(w, r, b, s). length s)") auto

definition replaceLiterals :: "string \<Rightarrow> string" where
  "replaceLiterals s =
     replaceWord ''undefined'' ''null'' None
       (replaceWord ''None'' ''null'' None
         (replaceWord ''False'' ''false'' None
           (replaceWord ''True'' ''true'' None s)))"

subsection \<open>Pass 4: single-quoted strings\<close>

text \<open>
  \<open>sqBody\<close> matches \<open>([^'\\]*(?:\\.[^'\\]*)*)'\<close> behind the opening quote and gives the
  captured inner text and what follows the closing quote.
\<close>

fun sqBody :: "string \<Rightarrow> (string \<times> string) option" where
  "sqBody [] = None"
| "sqBody (c # cs) =
     (if c = sq then Some ([], cs)
      else if c = bs then
        (case cs of
           [] \<Rightarrow> None
         | d # ds \<Rightarrow>
             if isLineTerminator d then None
             else map_option (\<lambda>(m, r). (c # d # m, r)) (sqBody ds))
      else map_option (\<lambda>(m, r). (c # m, r)) (sqBody cs))"

text \<open>\<open>inner.replace(/\\'/g, "'")\<close> and \<open>.replace(/"/g, '\\"')\<close>.\<close>

fun unescapeSingle :: "string \<Rightarrow> string" where
  "unescapeSingle (c # d # cs) =
     (if c = bs \<and> d = sq then sq # unescapeSingle cs else c # unescapeSingle (d # cs))"
| "unescapeSingle cs = cs"

fun escapeDouble :: "string \<Rightarrow> string" where
  "escapeDouble [] = []"
| "escapeDouble (c # cs) = (if c = dq then bs # dq # escapeDouble cs else c # escapeDouble cs)"

fun singleQuotedRe :: "string \<Rightarrow> (string \<times> string) option" where
  "singleQuotedRe [] = None"
| "singleQuotedRe (c # cs) =
     (if c = sq then
        (case sqBody cs of
           Some (inner, r) \<Rightarrow> Some (dq # escapeDouble (unescapeSingle inner) @ [dq], r)
         | None \<Rightarrow> None)
      else None)"

definition convertSingleQuotes :: "string \<Rightarrow> string" where
  "convertSingleQuotes s = replaceAll singleQuotedRe s"

subsection \<open>Pass 5: unquoted keys\<close>

text \<open>\<open>/([{,]\s*)([a-zA-Z_$][a-zA-Z0-9_$]*)(\s*:)/g\<close> replaced by \<open>$1"$2"$3\<close>.\<close>

fun unquotedKeyRe :: "string \<Rightarrow> (string \<times> string) option" where
  "unquotedKeyRe [] = None"
| "unquotedKeyRe (c # cs) =
     (if c = CHR ''{'' \<or> c = CHR '','' then
        (case dropWhile isSpace cs of
           [] \<Rightarrow> None
         | i # r1 \<Rightarrow>
             if isIdentStart i then
               (case dropWhile isSpace (dropWhile isIdentPart r1) of
                  [] \<Rightarrow> None
                | k # r2 \<Rightarrow>
                    if k = CHR '':'' then
                      Some ((c # takeWhile isSpace cs)
                              @ dq # (i # takeWhile isIdentPart r1) @ [dq]
                              @ (takeWhile isSpace (dropWhile isIdentPart r1) @ [k]),
                            r2)
                    else None)
             else None)
      else None)"

definition quoteKeys :: "string \<Rightarrow> string" where
  "quoteKeys s = replaceAll unquotedKeyRe s"

subsection \<open>Pass 6: trailing commas\<close>

text \<open>\<open>/,(\s*[}\]])/g\<close> replaced by \<open>$1\<close>.\<close>

fun trailingCommaRe :: "string \<Rightarrow> (string \<times> string) option" where
  "trailingCommaRe [] = None"
| "trailingCommaRe (c # cs) =
     (if c = CHR '','' then
        (case dropWhile isSpace cs of
           [] \<Rightarrow> None
         | b # r \<Rightarrow>
             if b = CHR ''}'' \<or> b = CHR '']'' then Some (takeWhile isSpace cs @ [b], r)
             else None)
      else None)"

definition removeTrailingCommas :: "string \<Rightarrow> string" where
  "removeTrailingCommas s = replaceAll trailingCommaRe s"

subsection \<open>\<open>fixJson\<close>, \<open>formatJson\<close>, \<open>minifyJson\<close>\<close>

text \<open>The six passes in the order of the source, each on the output of the one before.\<close>

definition repairPasses :: "string \<Rightarrow> string" where
  "repairPasses raw =
     removeTrailingCommas
       (quoteKeys
         (convertSingleQuotes
           (replaceLiterals
             (stripBlockComments
               (stripLineComments raw)))))"

text \<open>
  \<open>JSON.parse\<close> belongs to the platform, not to the repository: it is a parameter, a
  function from the text to either the message of the \<open>SyntaxError\<close> it throws (\<open>Inl\<close>)
  or the parsed value (\<open>Inr\<close>). The result of \<open>fixJson\<close> is the object
  \<open>{ fixed, wasFixed, error }\<close>, \<open>error: null\<close> being \<open>None\<close>.
\<close>

record repair_result =
  fixed :: string
  wasFixed :: bool
  error :: "string option"

definition fixJson :: "(string \<Rightarrow> string + 'v) \<Rightarrow> string \<Rightarrow> repair_result" where
  "fixJson JSON_parse raw =
     (if trim raw = [] then
        \<lparr>fixed = raw, wasFixed = False, error = Some ''Input is empty''\<rparr>
      else
        case JSON_parse raw of
          Inr _ \<Rightarrow> \<lparr>fixed = raw, wasFixed = False, error = None\<rparr>
        | Inl _ \<Rightarrow>
            (let s = repairPasses raw
             in case JSON_parse s of
                  Inr _ \<Rightarrow> \<lparr>fixed = s, wasFixed = True, error = None\<rparr>
                | Inl err \<Rightarrow>
                    (case JSON_parse raw of
                       Inl origErr \<Rightarrow> \<lparr>fixed = raw, wasFixed = False, error = Some origErr\<rparr>
                     | Inr _ \<Rightarrow> \<lparr>fixed = raw, wasFixed = False, error = Some err\<rparr>)))"

text \<open>
  \<open>JSON.stringify(value, null, indent)\<close> is the platform's as well: a parameter from the
  value and the indentation to the text. \<open>JSON.stringify(value)\<close> is the same call with
  no indentation. \<open>formatJson\<close> and \<open>minifyJson\<close> do not catch what \<open>JSON.parse\<close>
  throws: \<open>Inl\<close> is the message of the exception that leaves them.
\<close>

definition formatJson ::
  "(string \<Rightarrow> string + 'v) \<Rightarrow> ('v \<Rightarrow> nat \<Rightarrow> string) \<Rightarrow> string \<Rightarrow> nat \<Rightarrow> string + string" where
  "formatJson JSON_parse JSON_stringify jsonString indent =
     (case JSON_parse jsonString of
        Inl err \<Rightarrow> Inl err
      | Inr parsed \<Rightarrow> Inr (JSON_stringify parsed indent))"

definition minifyJson ::
  "(string \<Rightarrow> string + 'v) \<Rightarrow> ('v \<Rightarrow> nat \<Rightarrow> string) \<Rightarrow> string \<Rightarrow> string + string" where
  "minifyJson JSON_parse JSON_stringify jsonString =
     (case JSON_parse jsonString of
        Inl err \<Rightarrow> Inl err
      | Inr parsed \<Rightarrow> Inr (JSON_stringify parsed 0))"






section \<open>Parsed JSON values\<close>

text \<open>
  What \<open>JSON.parse\<close> returns. Numbers are doubles; their type is left open as \<open>'n\<close>, and
  \<open>String(n)\<close> of a number is the parameter \<open>numToString\<close>. An object is the list of its
  own properties in the order of \<open>Object.keys\<close>.
\<close>

datatype 'n json =
    JNull
  | JBool bool
  | JNum 'n
  | JStr string
  | JArr "'n json list"
  | JObj "(string \<times> 'n json) list"

datatype jstype = T_object | T_boolean | T_number | T_string

fun typeof :: "'n json \<Rightarrow> jstype" where
  "typeof JNull = T_object"
| "typeof (JBool b) = T_boolean"
| "typeof (JNum n) = T_number"
| "typeof (JStr s) = T_string"
| "typeof (JArr xs) = T_object"
| "typeof (JObj kvs) = T_object"

fun isNull :: "'n json \<Rightarrow> bool" where
  "isNull JNull = True"
| "isNull v = False"

fun isArray :: "'n json \<Rightarrow> bool" where
  "isArray (JArr xs) = True"
| "isArray v = False"

text \<open>Decimal digits of a natural number: the name of an array index.\<close>

fun showNat :: "nat \<Rightarrow> string" where
  "showNat n = (if n < 10 then [char_of (48 + n)] else showNat (n div 10) @ [char_of (48 + n mod 10)])"

declare showNat.simps [simp del]

fun joinWith :: "string \<Rightarrow> string list \<Rightarrow> string" where
  "joinWith sep [] = []"
| "joinWith sep [x] = x"
| "joinWith sep (x # y # ys) = x @ sep @ joinWith sep (y # ys)"

text \<open>
  \<open>String(value)\<close>. The components apply it to \<open>null\<close> and to primitives only; on an array
  it joins the elements with commas (\<open>null\<close> as the empty text), on an object it is
  \<open>[object Object]\<close>.
\<close>

fun String_of :: "('n \<Rightarrow> string) \<Rightarrow> 'n json \<Rightarrow> string" where
  "String_of numToString JNull = ''null''"
| "String_of numToString (JBool b) = (if b then ''true'' else ''false'')"
| "String_of numToString (JNum n) = numToString n"
| "String_of numToString (JStr s) = s"
| "String_of numToString (JArr xs) =
     joinWith '','' (map (\<lambda>x. if isNull x then [] else String_of numToString x) xs)"
| "String_of numToString (JObj kvs) = ''[object Object]''"

text \<open>\<open>Object.keys(value)\<close> with the values: \<open>[k, value[k]]\<close> for every own key.\<close>

fun entries :: "'n json \<Rightarrow> (string \<times> 'n json) list" where
  "entries (JArr xs) = zip (map showNat [0..<length xs]) xs"
| "entries (JObj kvs) = kvs"
| "entries v = []"

lemma size_json_arr_elem: "x \<in> set xs \<Longrightarrow> size x < size (JArr xs)"
  by (induction xs) auto

lemma size_json_obj_elem: "(k, x) \<in> set kvs \<Longrightarrow> size x < size (JObj kvs)"
  by (induction kvs) auto

lemma size_json_entries: "(k, x) \<in> set (entries v) \<Longrightarrow> size x < size v"
proof (cases v)
  case (JArr xs)
  assume "(k, x) \<in> set (entries v)"
  with JArr have "x \<in> set xs" by (auto dest: set_zip_rightD)
  with JArr show ?thesis using size_json_arr_elem by blast
next
  case (JObj kvs)
  assume "(k, x) \<in> set (entries v)"
  with JObj show ?thesis using size_json_obj_elem by fastforce
qed auto


section \<open>The tree view: \<open>JsonNode\<close> (JsonTreeView) and \<open>JsonItem\<close> (JsonOutput)\<close>

subsection \<open>Search matching\<close>

text \<open>
  \<open>keyName\<close> is \<open>None\<close> for \<open>null\<close> (the root and the elements of an array). The search
  term arrives in lower case from the search box.
\<close>

definition matchesSearch ::
  "('n \<Rightarrow> string) \<Rightarrow> string option \<Rightarrow> 'n json \<Rightarrow> string \<Rightarrow> bool" where
  "matchesSearch numToString keyName value searchTerm =
     (if searchTerm = [] then True
      else if (case keyName of
                 None \<Rightarrow> False
               | Some k \<Rightarrow> includes_str (toLowerCase k) searchTerm) then True
      else if \<not> isNull value \<and> typeof value \<noteq> T_object
        then includes_str (toLowerCase (String_of numToString value)) searchTerm
      else False)"

text \<open>
  \<open>JsonItem\<close> tests \<open>keyName && ...\<close>: the empty key is skipped as \<open>null\<close> is.
\<close>

definition matchesSearchItem ::
  "('n \<Rightarrow> string) \<Rightarrow> string option \<Rightarrow> 'n json \<Rightarrow> string \<Rightarrow> bool" where
  "matchesSearchItem numToString keyName value searchTerm =
     (if searchTerm = [] then True
      else if (case keyName of
                 None \<Rightarrow> False
               | Some k \<Rightarrow> k \<noteq> [] \<and> includes_str (toLowerCase k) searchTerm) then True
      else if \<not> isNull value \<and> typeof value \<noteq> T_object
        then includes_str (toLowerCase (String_of numToString value)) searchTerm
      else False)"

text \<open>The local \<open>recurse\<close> of \<open>hasMatchingDescendant\<close> (\<open>check\<close> in \<open>JsonItem\<close>).\<close>

function recurse :: "('n \<Rightarrow> string) \<Rightarrow> string \<Rightarrow> 'n json \<Rightarrow> bool" where
  "recurse numToString searchTerm v =
     (if isNull v \<or> typeof v \<noteq> T_object
        then includes_str (toLowerCase (String_of numToString v)) searchTerm
      else list_ex (\<lambda>kx. includes_str (toLowerCase (fst kx)) searchTerm
                          \<or> recurse numToString searchTerm (snd kx))
             (entries v))"
  by pat_completeness auto
termination
  by (relation "measure (\<lambda>(n, t, v). size v)")
     (auto intro: size_json_entries simp: prod_eq_iff)

declare recurse.simps [simp del]

definition hasMatchingDescendant ::
  "('n \<Rightarrow> string) \<Rightarrow> string option \<Rightarrow> 'n json \<Rightarrow> string \<Rightarrow> bool" where
  "hasMatchingDescendant numToString keyName value searchTerm =
     (if searchTerm = [] then True
      else if isNull value \<or> typeof value \<noteq> T_object
        then matchesSearch numToString keyName value searchTerm
      else matchesSearch numToString keyName value searchTerm
             \<or> recurse numToString searchTerm value)"

definition hasMatchingChildren ::
  "('n \<Rightarrow> string) \<Rightarrow> string option \<Rightarrow> 'n json \<Rightarrow> string \<Rightarrow> bool" where
  "hasMatchingChildren numToString keyName value searchTerm =
     (if searchTerm = [] then True
      else if isNull value \<or> typeof value \<noteq> T_object
        then matchesSearchItem numToString keyName value searchTerm
      else matchesSearchItem numToString keyName value searchTerm
             \<or> recurse numToString searchTerm value)"

subsection \<open>Component instances and their collapse state\<close>

text \<open>
  Every \<open>JsonNode\<close> holds its own \<open>collapsed\<close> flag (\<open>useState\<close>). React keeps the state
  of an instance under its place in the tree, here the list of child positions from the
  root (\<open>key={i}\<close>). The store \<open>st\<close> maps the place of every instance that has been
  mounted to its current flag; an instance whose place is not in the store is mounted by
  this render and starts from the argument of \<open>useState\<close>.

  \<open>JsonNode\<close> below gives the instances a render visits, parents first, each with the
  props it received and the flag its hook returned. The hooks run before every
  \<open>return\<close>, so a node that renders nothing or a single line is an instance as well;
  children are instances only of a non-empty container that is shown open.
\<close>

record 'n node_instance =
  nodePath :: "nat list"
  nodeKey :: "string option"
  nodeValue :: "'n json"
  nodeDepth :: nat
  nodeCollapsed :: bool

definition useState :: "(nat list \<rightharpoonup> bool) \<Rightarrow> nat list \<Rightarrow> bool \<Rightarrow> bool" where
  "useState st path initial = (case st path of None \<Rightarrow> initial | Some c \<Rightarrow> c)"

function JsonNode ::
  "(nat list \<rightharpoonup> bool) \<Rightarrow> ('n \<Rightarrow> string) \<Rightarrow> string \<Rightarrow> bool \<Rightarrow>
   nat list \<Rightarrow> string option \<Rightarrow> 'n json \<Rightarrow> nat \<Rightarrow> 'n node_instance list" where
  "JsonNode st numToString searchTerm filterMode path keyName value depth =
     \<lparr>nodePath = path, nodeKey = keyName, nodeValue = value, nodeDepth = depth,
      nodeCollapsed = useState st path (3 < depth)\<rparr>
     # (if filterMode \<and> \<not> hasMatchingDescendant numToString keyName value searchTerm then []
        else if isNull value then []
        else if typeof value \<noteq> T_object then []
        else if entries value = [] then []
        else if \<not> useState st path (3 < depth)
                \<or> (searchTerm \<noteq> [] \<and> hasMatchingDescendant numToString keyName value searchTerm)
          then concat (map (\<lambda>ikv. JsonNode st numToString searchTerm filterMode
                                     (path @ [fst ikv])
                                     (if isArray value then None else Some (fst (snd ikv)))
                                     (snd (snd ikv)) (depth + 1))
                         (zip [0..<length (entries value)] (entries value)))
        else [])"
  by pat_completeness auto
termination
proof (relation "measure (\<lambda>(st, n, t, f, p, k, v, d). size v)", goal_cases)
  case 1
  show ?case by simp
next
  case (2 st numToString searchTerm filterMode path keyName "value" depth ikv)
  then have "snd ikv \<in> set (entries value)"
    by (metis prod.collapse set_zip_rightD)
  then have "size (snd (snd ikv)) < size value"
    using size_json_entries[of "fst (snd ikv)" "snd (snd ikv)" "value"] by simp
  then show ?case by simp
qed

declare JsonNode.simps [simp del]

definition JsonTreeView ::
  "(nat list \<rightharpoonup> bool) \<Rightarrow> ('n \<Rightarrow> string) \<Rightarrow> string \<Rightarrow> bool \<Rightarrow> 'n json \<Rightarrow> 'n node_instance list" where
  "JsonTreeView st numToString searchTerm filterMode data =
     JsonNode st numToString searchTerm filterMode [] None data 0"

text \<open>
  \<open>JsonItem\<close>, the older component of \<open>JsonOutput\<close>: it has no \<open>depth\<close> prop and its hook
  is \<open>useState(false)\<close>.
\<close>

record 'n item_instance =
  itemPath :: "nat list"
  itemKey :: "string option"
  itemValue :: "'n json"
  itemCollapsed :: bool

function JsonItem ::
  "(nat list \<rightharpoonup> bool) \<Rightarrow> ('n \<Rightarrow> string) \<Rightarrow> string \<Rightarrow> bool \<Rightarrow>
   nat list \<Rightarrow> string option \<Rightarrow> 'n json \<Rightarrow> 'n item_instance list" where
  "JsonItem st numToString searchTerm filterMode path keyName value =
     \<lparr>itemPath = path, itemKey = keyName, itemValue = value,
      itemCollapsed = useState st path False\<rparr>
     # (if filterMode \<and> \<not> hasMatchingChildren numToString keyName value searchTerm then []
        else if isNull value then []
        else if typeof value \<noteq> T_object then []
        else if entries value = [] then []
        else if \<not> (useState st path False
                   \<and> \<not> (searchTerm \<noteq> [] \<and> hasMatchingChildren numToString keyName value searchTerm))
          then concat (map (\<lambda>ikv. JsonItem st numToString searchTerm filterMode
                                     (path @ [fst ikv])
                                     (if isArray value then None else Some (fst (snd ikv)))
                                     (snd (snd ikv)))
                         (zip [0..<length (entries value)] (entries value)))
        else [])"
  by pat_completeness auto
termination
proof (relation "measure (\<lambda>(st, n, t, f, p, k, v). size v)", goal_cases)
  case 1
  show ?case by simp
next
  case (2 st numToString searchTerm filterMode path keyName "value" ikv)
  then have "snd ikv \<in> set (entries value)"
    by (metis prod.collapse set_zip_rightD)
  then have "size (snd (snd ikv)) < size value"
    using size_json_entries[of "fst (snd ikv)" "snd (snd ikv)" "value"] by simp
  then show ?case by simp
qed

declare JsonItem.simps [simp del]

text \<open>
  \<open>JsonOutput\<close> mounts the root item only for data that is not \<open>null\<close>
  (\<open>displayData !== undefined && displayData !== null\<close>; for \<open>null\<close> it shows the
  placeholder), with the search term lowered and \<open>keyName\<close> unset.
\<close>

definition JsonOutput ::
  "(nat list \<rightharpoonup> bool) \<Rightarrow> ('n \<Rightarrow> string) \<Rightarrow> string \<Rightarrow> bool \<Rightarrow> 'n json \<Rightarrow> 'n item_instance list" where
  "JsonOutput st numToString searchTerm filterMode displayData =
     (if isNull displayData then []
      else JsonItem st numToString (toLowerCase searchTerm) filterMode [] None displayData)"

text \<open>An array nested six deep, \<open>[[[[[[1]]]]]]\<close>: its containers sit at the depths 0 to 5.\<close>

definition deepArray :: "nat json" where
  "deepArray = JArr [JArr [JArr [JArr [JArr [JArr [JNum 1]]]]]]"


section \<open>The path evaluator of \<open>JsonOutput\<close>\<close>


text \<open>An array index as a property name: decimal, no leading zero.\<close>

definition isIndexName :: "string \<Rightarrow> bool" where
  "isIndexName key \<longleftrightarrow> key \<noteq> [] \<and> list_all isDigit key \<and> (length key = 1 \<or> hd key \<noteq> CHR ''0'')"

definition parseNat :: "string \<Rightarrow> nat" where
  "parseNat ds = foldl (\<lambda>a c. 10 * a + (of_char c - 48)) 0 ds"

fun ownProperty :: "'n json \<Rightarrow> string \<Rightarrow> 'n json option" where
  "ownProperty (JObj kvs) key = map_of kvs key"
| "ownProperty (JArr xs) key =
     (if isIndexName key \<and> parseNat key < length xs then Some (xs ! parseNat key) else None)"
| "ownProperty (JStr s) key =
     (if isIndexName key \<and> parseNat key < length s then Some (JStr [s ! parseNat key]) else None)"
| "ownProperty v key = None"

















section \<open>The session controller (\<open>JsonFormatter\<close>)\<close>

text \<open>
  The state of the component that the handlers below read or write. \<open>documentText\<close> is
  the \<open>value\<close> state together with \<open>value_ref.current\<close> (only \<open>setValue\<close> writes them, both
  at once); \<open>errorText\<close> is the \<open>error\<close> state, shown in the error banner. The rest of
  the component state (theme, snippets, font size, the URL bar) is the extension of the
  record, which no handler here touches. \<open>localStorage\<close> is outside the component.
\<close>

datatype view_mode = EditView | TreeView

datatype toast_msg =
    NoToast
  | ToastUndone
  | ToastFormatted
  | ToastFixedFormatted
  | ToastMinified
  | ToastFixedMinified

record 'i session =
  viewMode :: view_mode
  documentText :: string
  formattedVal :: string
  errorText :: string
  toast :: toast_msg
  indentSize :: nat
  activeId :: "'i option"
  undoStack :: "string list"
  undoLen :: nat

text \<open>A handler returns, or an exception leaves it with the state written so far.\<close>

datatype 's outcome = Returned 's | Thrown string 's

definition setValue :: "string \<Rightarrow> ('i, 'z) session_scheme \<Rightarrow> ('i, 'z) session_scheme" where
  "setValue v s = s\<lparr>documentText := v\<rparr>"

definition pushUndo :: "('i, 'z) session_scheme \<Rightarrow> ('i, 'z) session_scheme" where
  "pushUndo s =
     (if documentText s = [] then s
      else s\<lparr>undoStack := take 50 (documentText s # undoStack s),
             undoLen := length (take 50 (documentText s # undoStack s))\<rparr>)"

definition handleUndo :: "('i, 'z) session_scheme \<Rightarrow> ('i, 'z) session_scheme" where
  "handleUndo s =
     (case undoStack s of
        [] \<Rightarrow> s
      | prev # rest \<Rightarrow>
          (setValue prev (s\<lparr>undoStack := rest, undoLen := length rest\<rparr>))
            \<lparr>errorText := [], viewMode := EditView, activeId := None, toast := ToastUndone\<rparr>)"

text \<open>\<open>if (fixErr)\<close>: \<open>null\<close> and the empty text are falsy.\<close>

fun truthy :: "string option \<Rightarrow> bool" where
  "truthy None = False"
| "truthy (Some e) = (e \<noteq> [])"

definition handleFormat ::
  "(string \<Rightarrow> string + 'v) \<Rightarrow> ('v \<Rightarrow> nat \<Rightarrow> string) \<Rightarrow>
   ('i, 'z) session_scheme \<Rightarrow> ('i, 'z) session_scheme outcome" where
  "handleFormat JSON_parse JSON_stringify s =
     (let s1 = s\<lparr>errorText := []\<rparr>;
          raw = trim (documentText s1)
      in if raw = [] then Returned s1
         else
           (let r = fixJson JSON_parse raw
            in if truthy (error r) then Returned (s1\<lparr>errorText := the (error r)\<rparr>)
               else
                 (let s2 = pushUndo s1
                  in case formatJson JSON_parse JSON_stringify (fixed r) (indentSize s2) of
                       Inl exn \<Rightarrow> Thrown exn s2
                     | Inr pretty \<Rightarrow>
                         Returned
                           ((setValue pretty s2)
                              \<lparr>formattedVal := pretty, viewMode := TreeView,
                               toast := (if wasFixed r then ToastFixedFormatted
                                         else ToastFormatted)\<rparr>))))"

definition handleMinify ::
  "(string \<Rightarrow> string + 'v) \<Rightarrow> ('v \<Rightarrow> nat \<Rightarrow> string) \<Rightarrow>
   ('i, 'z) session_scheme \<Rightarrow> ('i, 'z) session_scheme outcome" where
  "handleMinify JSON_parse JSON_stringify s =
     (let s1 = s\<lparr>errorText := []\<rparr>;
          raw = trim (documentText s1)
      in if raw = [] then Returned s1
         else
           (let r = fixJson JSON_parse raw
            in if truthy (error r) then Returned (s1\<lparr>errorText := the (error r)\<rparr>)
               else
                 (let s2 = pushUndo s1
                  in case minifyJson JSON_parse JSON_stringify (fixed r) of
                       Inl exn \<Rightarrow> Thrown exn s2
                     | Inr small \<Rightarrow>
                         Returned
                           ((setValue small s2)
                              \<lparr>viewMode := EditView,
                               toast := (if wasFixed r then ToastFixedMinified
                                         else ToastMinified)\<rparr>))))"

text \<open>
  What can happen to the session between two renders: typing into the editor
  (\<open>onChange\<close> calls \<open>setValue\<close>), a handler's call of \<open>pushUndo\<close>, and the three handlers.
  A handler that throws leaves the state it had written.
\<close>

datatype action = Type string | PushUndo | Undo | Format | Minify

fun stateOf :: "'s outcome \<Rightarrow> 's" where
  "stateOf (Returned s) = s"
| "stateOf (Thrown exn s) = s"

fun step ::
  "(string \<Rightarrow> string + 'v) \<Rightarrow> ('v \<Rightarrow> nat \<Rightarrow> string) \<Rightarrow>
   ('i, 'z) session_scheme \<Rightarrow> action \<Rightarrow> ('i, 'z) session_scheme" where
  "step P S s (Type v) = setValue v s"
| "step P S s PushUndo = pushUndo s"
| "step P S s Undo = handleUndo s"
| "step P S s Format = stateOf (handleFormat P S s)"
| "step P S s Minify = stateOf (handleMinify P S s)"

text \<open>
  Pushing the texts \<open>ts\<close> one after the other, oldest first: each is the document text
  at the moment a handler calls \<open>pushUndo\<close>.
\<close>

fun pushTexts :: "string list \<Rightarrow> ('i, 'z) session_scheme \<Rightarrow> ('i, 'z) session_scheme" where
  "pushTexts [] s = s"
| "pushTexts (t # ts) s = pushTexts ts (pushUndo (setValue t s))"

text \<open>The component as it is mounted with an empty draft.\<close>

definition initialSession :: "nat session" where
  "initialSession =
     \<lparr>viewMode = EditView, documentText = [], formattedVal = [], errorText = [],
      toast = NoToast, indentSize = 2, activeId = None, undoStack = [], undoLen = 0\<rparr>"


section \<open>The platform at two examples\<close>







section \<open>Properties of \<open>fixJson\<close>\<close>

text \<open>
  C1. For every input whose trimmed content is non-empty and which \<open>JSON.parse\<close> accepts,
  \<open>fixJson\<close> returns the input itself as \<open>fixed\<close>, with \<open>wasFixed = false\<close> and no error:
  the repair passes are not applied, whatever they would have made of the text.
\<close>

theorem fixJson_valid_verbatim:
  assumes "trim raw \<noteq> []"
    and "JSON_parse raw = Inr v"
  shows "fixJson JSON_parse raw = \<lparr>fixed = raw, wasFixed = False, error = None\<rparr>"
  using assms by (simp add: fixJson_def)

text \<open>
  The JSON text \<open>"True"\<close> (a string) is valid; the passes would turn it into \<open>"true"\<close>,
  and \<open>fixJson\<close> returns it as it is.
\<close>

theorem fixJson_valid_verbatim_witness:
  "trim ''\"True\"'' \<noteq> []
   \<and> repairPasses ''\"True\"'' = ''\"true\"''
   \<and> fixJson (\<lambda>s. if s = ''\"True\"'' then Inr () else Inl ''Unexpected token'') ''\"True\"''
       = \<lparr>fixed = ''\"True\"'', wasFixed = False, error = None\<rparr>"
proof -
  have t: "trim ''\"True\"'' \<noteq> []"
    by (simp add: trim_def isSpace_def)
  have r: "repairPasses ''\"True\"'' = ''\"true\"''"
    by code_simp
  show ?thesis
    using t r
      fixJson_valid_verbatim
        [of "''\"True\"''" "\<lambda>s. if s = ''\"True\"'' then Inr () else Inl ''Unexpected token''" "()", OF t]
    by simp
qed

text \<open>
  C2, at the failing input \<open>["True",]\<close> (a trailing comma, so not valid JSON). The two
  comment passes keep the string literal, as their first alternative makes them; the
  literal pass has no such alternative and rewrites the content of the string, so that
  \<open>fixJson\<close> reports a successful repair whose text holds \<open>"true"\<close> in place of \<open>"True"\<close>.
  The parser of the statement is any that rejects the input and accepts the output, as
  \<open>JSON.parse\<close> does.
\<close>

theorem fixJson_rewrites_string_literal:
  "stripBlockComments (stripLineComments ''[\"True\",]'') = ''[\"True\",]''
   \<and> replaceLiterals ''[\"True\",]'' = ''[\"true\",]''
   \<and> repairPasses ''[\"True\",]'' = ''[\"true\"]''
   \<and> fixJson (\<lambda>s. if s = ''[\"true\"]'' then Inr () else Inl ''Unexpected token ]'')
         ''[\"True\",]''
       = \<lparr>fixed = ''[\"true\"]'', wasFixed = True, error = None\<rparr>"
proof -
  have a: "stripBlockComments (stripLineComments ''[\"True\",]'') = ''[\"True\",]''"
    by code_simp
  have b: "replaceLiterals ''[\"True\",]'' = ''[\"true\",]''"
    by code_simp
  have c: "repairPasses ''[\"True\",]'' = ''[\"true\"]''"
    by code_simp
  have t: "trim ''[\"True\",]'' \<noteq> []"
    by (simp add: trim_def isSpace_def)
  show ?thesis
    using a b c t by (simp add: fixJson_def)
qed

text \<open>
  C3. For every input whose trimmed content is non-empty and which \<open>JSON.parse\<close> rejects
  both as given and after the repair passes, \<open>fixJson\<close> returns the original input as
  \<open>fixed\<close>, \<open>wasFixed = false\<close>, and as error the message \<open>JSON.parse\<close> gives for the
  original text, not the one it gives for the repaired text.
\<close>

theorem fixJson_unrepairable_reports_original:
  assumes "trim raw \<noteq> []"
    and "JSON_parse raw = Inl origErr"
    and "JSON_parse (repairPasses raw) = Inl err"
  shows "fixJson JSON_parse raw = \<lparr>fixed = raw, wasFixed = False, error = Some origErr\<rparr>"
  using assms by (simp add: fixJson_def)

text \<open>
  \<open>{a: }\<close> is repaired to \<open>{"a": }\<close>, which is still not JSON; the message returned is the
  one for \<open>{a: }\<close>.
\<close>

theorem fixJson_unrepairable_reports_original_witness:
  "trim ''{a: }'' \<noteq> []
   \<and> repairPasses ''{a: }'' = ''{\"a\": }''
   \<and> fixJson (\<lambda>s. if s = ''{a: }'' then Inl ''Unexpected token a at position 1''
                    else Inl ''Unexpected token } at position 6'') ''{a: }''
       = \<lparr>fixed = ''{a: }'', wasFixed = False,
          error = Some ''Unexpected token a at position 1''\<rparr>"
proof -
  have t: "trim ''{a: }'' \<noteq> []"
    by (simp add: trim_def isSpace_def)
  have r: "repairPasses ''{a: }'' = ''{\"a\": }''"
    by code_simp
  show ?thesis
    using t r
      fixJson_unrepairable_reports_original
        [of "''{a: }''"
            "\<lambda>s. if s = ''{a: }'' then Inl ''Unexpected token a at position 1''
                 else Inl ''Unexpected token } at position 6''"
            "''Unexpected token a at position 1''"
            "''Unexpected token } at position 6''", OF t]
    by simp
qed

section \<open>Properties of \<open>formatJson\<close> and \<open>minifyJson\<close>\<close>





section \<open>Properties of the session controller\<close>

lemma pushUndo_bound: "length (undoStack s) \<le> 50 \<Longrightarrow> length (undoStack (pushUndo s)) \<le> 50"
  by (simp add: pushUndo_def)

lemma handleUndo_bound: "length (undoStack s) \<le> 50 \<Longrightarrow> length (undoStack (handleUndo s)) \<le> 50"
  by (auto simp: handleUndo_def setValue_def split: list.splits)

lemma handleFormat_bound:
  "length (undoStack s) \<le> 50 \<Longrightarrow> length (undoStack (stateOf (handleFormat P S s))) \<le> 50"
  by (simp add: handleFormat_def Let_def setValue_def pushUndo_def split: sum.splits)

lemma handleMinify_bound:
  "length (undoStack s) \<le> 50 \<Longrightarrow> length (undoStack (stateOf (handleMinify P S s))) \<le> 50"
  by (simp add: handleMinify_def Let_def setValue_def pushUndo_def split: sum.splits)

lemma step_bound: "length (undoStack s) \<le> 50 \<Longrightarrow> length (undoStack (step P S s a)) \<le> 50"
  by (cases a) (simp_all add: pushUndo_bound handleUndo_bound handleFormat_bound handleMinify_bound setValue_def)

lemma run_bound: "length (undoStack s) \<le> 50 \<Longrightarrow> length (undoStack (foldl (step P S) s acts)) \<le> 50"
  by (induction acts arbitrary: s) (simp_all add: step_bound)

lemma take_append_take: "take n (xs @ take n ys) = take n (xs @ ys)"
  by (simp add: min_def)

lemma undoStack_pushTexts:
  "\<forall>t \<in> set ts. t \<noteq> [] \<Longrightarrow> length (undoStack s) \<le> 50
   \<Longrightarrow> undoStack (pushTexts ts s) = take 50 (rev ts @ undoStack s)"
proof (induction ts arbitrary: s)
  case Nil
  then show ?case by simp
next
  case (Cons t ts)
  let ?s' = "pushUndo (setValue t s)"
  from Cons.prems have t: "t \<noteq> []" by simp
  then have st: "undoStack ?s' = take 50 (t # undoStack s)"
    by (simp add: pushUndo_def setValue_def)
  then have len: "length (undoStack ?s') \<le> 50" by simp
  from Cons.prems have "\<forall>t \<in> set ts. t \<noteq> []" by simp
  from Cons.IH[OF this len] have "undoStack (pushTexts ts ?s') = take 50 (rev ts @ take 50 (t # undoStack s))"
    by (simp only: st)
  then show ?case by (simp only: pushTexts.simps take_append_take rev.simps append_assoc append_Cons append_Nil)
qed

lemma undo_iterate:
  "k \<le> length (undoStack s) \<Longrightarrow>
   undoStack ((handleUndo ^^ k) s) = drop k (undoStack s)
   \<and> (0 < k \<longrightarrow> documentText ((handleUndo ^^ k) s) = undoStack s ! (k - 1))"
proof (induction k)
  case 0
  then show ?case by simp
next
  case (Suc k)
  let ?s = "(handleUndo ^^ k) s"
  from Suc have st: "undoStack ?s = drop k (undoStack s)" by simp
  from Suc.prems have "k < length (undoStack s)" by simp
  then have d: "drop k (undoStack s) = undoStack s ! k # drop (Suc k) (undoStack s)"
    by (simp add: Cons_nth_drop_Suc)
  have "undoStack (handleUndo ?s) = drop (Suc k) (undoStack s)"
    and "documentText (handleUndo ?s) = undoStack s ! k"
    using st d by (simp_all add: handleUndo_def setValue_def)
  then show ?case by simp
qed

lemma undo_empty: "undoStack s = [] \<Longrightarrow> handleUndo s = s"
  by (simp add: handleUndo_def)

lemma showNat_nonempty: "showNat n \<noteq> []"
  by (subst showNat.simps) simp

text \<open>
  C8. The undo stack never holds more than 50 entries, whatever the user does. A push
  (\<open>pushUndo\<close> on a non-empty document; on the empty document it returns at once)
  prepends the document text and keeps the 50 most recent entries. Undo removes the
  newest entry and restores it as the document text. After 51 pushes the stack holds
  the last 50 texts, newest first; the first undo restores the newest, the 50th undo
  restores the second text pushed, the stack is then empty and a further undo changes
  nothing: the first text pushed is never restored.
\<close>

theorem undo_stack_capped:
  "(length (undoStack s) \<le> 50 \<longrightarrow> length (undoStack (foldl (step P S) s acts)) \<le> 50)
   \<and> (documentText s \<noteq> [] \<longrightarrow> undoStack (pushUndo s) = take 50 (documentText s # undoStack s))
   \<and> (undoStack s = prev # rest \<longrightarrow>
        documentText (handleUndo s) = prev \<and> undoStack (handleUndo s) = rest)
   \<and> (length ts = 51 \<and> (\<forall>t \<in> set ts. t \<noteq> []) \<and> length (undoStack s) \<le> 50 \<longrightarrow>
        undoStack (pushTexts ts s) = rev (tl ts)
        \<and> length (undoStack (pushTexts ts s)) = 50
        \<and> (\<forall>k. 1 \<le> k \<and> k \<le> 50 \<longrightarrow>
              documentText ((handleUndo ^^ k) (pushTexts ts s)) = ts ! (51 - k))
        \<and> undoStack ((handleUndo ^^ 50) (pushTexts ts s)) = []
        \<and> (handleUndo ^^ 51) (pushTexts ts s) = (handleUndo ^^ 50) (pushTexts ts s))"
proof (intro conjI impI)
  assume "length (undoStack s) \<le> 50"
  then show "length (undoStack (foldl (step P S) s acts)) \<le> 50" by (rule run_bound)
next
  assume "documentText s \<noteq> []"
  then show "undoStack (pushUndo s) = take 50 (documentText s # undoStack s)"
    by (simp add: pushUndo_def)
next
  assume "undoStack s = prev # rest"
  then show "documentText (handleUndo s) = prev" by (simp add: handleUndo_def setValue_def)
next
  assume "undoStack s = prev # rest"
  then show "undoStack (handleUndo s) = rest" by (simp add: handleUndo_def setValue_def)
next
  assume a: "length ts = 51 \<and> (\<forall>t \<in> set ts. t \<noteq> []) \<and> length (undoStack s) \<le> 50"
  let ?s = "pushTexts ts s"
  from a have "undoStack ?s = take 50 (rev ts @ undoStack s)"
    using undoStack_pushTexts by blast
  also from a have "\<dots> = take 50 (rev ts)" by simp
  also from a have "\<dots> = rev (tl ts)" by (simp add: take_rev drop_Suc)
  finally show st: "undoStack ?s = rev (tl ts)" .
  from a st show len: "length (undoStack ?s) = 50" by simp
  show "\<forall>k. 1 \<le> k \<and> k \<le> 50 \<longrightarrow> documentText ((handleUndo ^^ k) ?s) = ts ! (51 - k)"
  proof (intro allI impI)
    fix k :: nat
    assume k: "1 \<le> k \<and> k \<le> 50"
    with len have "documentText ((handleUndo ^^ k) ?s) = undoStack ?s ! (k - 1)"
      using undo_iterate[of k ?s] by simp
    also have "\<dots> = tl ts ! (50 - k)"
    proof -
      from a have l: "length (tl ts) = 50" by simp
      from k have "k - 1 < 50" by arith
      with l have "k - 1 < length (tl ts)" by simp
      then have "rev (tl ts) ! (k - 1) = tl ts ! (length (tl ts) - Suc (k - 1))"
        by (rule rev_nth)
      moreover from k l have "length (tl ts) - Suc (k - 1) = 50 - k" by arith
      ultimately have "rev (tl ts) ! (k - 1) = tl ts ! (50 - k)" by (simp only:)
      with st show ?thesis by (simp only:)
    qed
    also have "\<dots> = ts ! (51 - k)"
    proof -
      from a k have "50 - k < length (tl ts)" by simp
      then have "tl ts ! (50 - k) = ts ! Suc (50 - k)" by (rule nth_tl)
      moreover from k have "Suc (50 - k) = 51 - k" by arith
      ultimately show ?thesis by simp
    qed
    finally show "documentText ((handleUndo ^^ k) ?s) = ts ! (51 - k)" .
  qed
  from len have e: "undoStack ((handleUndo ^^ 50) ?s) = []"
    using undo_iterate[of 50 ?s] by simp
  then show "undoStack ((handleUndo ^^ 50) ?s) = []" .
  have "(handleUndo ^^ 51) ?s = handleUndo ((handleUndo ^^ 50) ?s)"
    by (simp add: numeral_eq_Suc)
  with e show "(handleUndo ^^ 51) ?s = (handleUndo ^^ 50) ?s"
    by (simp add: undo_empty)
qed


text \<open>
  The texts \<open>1\<close>, ..., \<open>51\<close> pushed onto the empty stack: 50 entries, \<open>1\<close> is not among
  them, the first undo restores \<open>51\<close> and the 50th restores \<open>2\<close>.
\<close>

theorem undo_stack_capped_witness:
  "length (undoStack (foldl (step (\<lambda>s. Inl ''Unexpected token'') (\<lambda>(v::unit) n. ''null''))
                       initialSession [Type ''{}'', PushUndo, Type ''[1,'', Format, Undo])) \<le> 50
   \<and> undoStack (pushUndo (initialSession\<lparr>documentText := ''{}''\<rparr>)) = [''{}'']
   \<and> documentText (handleUndo (initialSession\<lparr>undoStack := [''{}''], undoLen := 1\<rparr>)) = ''{}''
   \<and> undoStack (handleUndo (initialSession\<lparr>undoStack := [''{}''], undoLen := 1\<rparr>)) = []
   \<and> length (undoStack (pushTexts (map showNat [1..<52]) initialSession)) = 50
   \<and> ''1'' \<notin> set (undoStack (pushTexts (map showNat [1..<52]) initialSession))
   \<and> documentText (handleUndo (pushTexts (map showNat [1..<52]) initialSession)) = ''51''
   \<and> documentText ((handleUndo ^^ 50) (pushTexts (map showNat [1..<52]) initialSession)) = ''2''
   \<and> (handleUndo ^^ 51) (pushTexts (map showNat [1..<52]) initialSession)
       = (handleUndo ^^ 50) (pushTexts (map showNat [1..<52]) initialSession)"
proof -
  let ?ts = "map showNat [1..<52]"
  let ?P = "\<lambda>s::string. (Inl ''Unexpected token'' :: string + unit)"
  let ?S = "\<lambda>(v::unit) (n::nat). ''null''"
  have h: "length ?ts = 51 \<and> (\<forall>t \<in> set ?ts. t \<noteq> []) \<and> length (undoStack initialSession) \<le> 50"
    by (simp add: showNat_nonempty initialSession_def)
  have tl: "''1'' \<notin> set (rev (tl ?ts))"
    by code_simp
  have n1: "?ts ! (51 - 50) = ''2''" by code_simp
  have n2: "?ts ! (51 - 1) = ''51''" by code_simp
  from undo_stack_capped[of initialSession ?P ?S "[]" "[]" "[]" ?ts] h
  have r: "undoStack (pushTexts ?ts initialSession) = rev (tl ?ts)
        \<and> length (undoStack (pushTexts ?ts initialSession)) = 50
        \<and> (\<forall>k. 1 \<le> k \<and> k \<le> 50 \<longrightarrow>
              documentText ((handleUndo ^^ k) (pushTexts ?ts initialSession)) = ?ts ! (51 - k))
        \<and> undoStack ((handleUndo ^^ 50) (pushTexts ?ts initialSession)) = []
        \<and> (handleUndo ^^ 51) (pushTexts ?ts initialSession) = (handleUndo ^^ 50) (pushTexts ?ts initialSession)"
    by blast
  from r have allk: "\<And>k. 1 \<le> k \<and> k \<le> 50 \<Longrightarrow>
      documentText ((handleUndo ^^ k) (pushTexts ?ts initialSession)) = ?ts ! (51 - k)"
    by blast
  have u50: "documentText ((handleUndo ^^ 50) (pushTexts ?ts initialSession)) = ''2''"
    using allk[of 50] n1 by simp
  have "documentText ((handleUndo ^^ 1) (pushTexts ?ts initialSession)) = ''51''"
    using allk[of 1] n2 by simp
  then have u1: "documentText (handleUndo (pushTexts ?ts initialSession)) = ''51''"
    by simp
  from r have st: "undoStack (pushTexts ?ts initialSession) = rev (tl ?ts)"
    by blast
  have gone: "''1'' \<notin> set (undoStack (pushTexts ?ts initialSession))"
    unfolding st by (rule tl)
  let ?acts = "[Type ''{}'', PushUndo, Type ''[1,'', Format, Undo]"
  have "length (undoStack initialSession) \<le> 50 \<longrightarrow>
        length (undoStack (foldl (step ?P ?S) initialSession ?acts)) \<le> 50"
    by (rule undo_stack_capped[THEN conjunct1])
  then have a1: "length (undoStack (foldl (step ?P ?S) initialSession ?acts)) \<le> 50"
    by (simp add: initialSession_def)
  let ?s1 = "initialSession\<lparr>documentText := ''{}''\<rparr>"
  have "documentText ?s1 \<noteq> [] \<longrightarrow>
        undoStack (pushUndo ?s1) = take 50 (documentText ?s1 # undoStack ?s1)"
    by (rule undo_stack_capped[THEN conjunct2, THEN conjunct1])
  then have a2: "undoStack (pushUndo ?s1) = [''{}'']"
    by (simp add: initialSession_def)
  let ?s2 = "initialSession\<lparr>undoStack := [''{}''], undoLen := 1\<rparr>"
  have "undoStack ?s2 = ''{}'' # [] \<longrightarrow>
        documentText (handleUndo ?s2) = ''{}'' \<and> undoStack (handleUndo ?s2) = []"
    by (rule undo_stack_capped[THEN conjunct2, THEN conjunct2, THEN conjunct1])
  then have a3: "documentText (handleUndo ?s2) = ''{}'' \<and> undoStack (handleUndo ?s2) = []"
    by simp
  from a1 a2 a3 r u50 u1 gone show ?thesis by blast
qed


text \<open>
  C9. When \<open>fixJson\<close> reports an error for the current (trimmed) text, Format and Minify
  return before \<open>pushUndo\<close>: the state they leave is the old one but for the error
  banner, so the document text and the undo stack are unchanged and no entry is pushed.
  The banner shows the error of \<open>fixJson\<close>; for a blank document the handlers return
  before they call \<open>fixJson\<close>, with the banner cleared.
\<close>

theorem format_minify_atomic_on_error:
  assumes "error (fixJson JSON_parse (trim (documentText s))) = Some e"
    and "e \<noteq> []"
  shows "handleFormat JSON_parse JSON_stringify s
           = Returned (s\<lparr>errorText := (if trim (documentText s) = [] then [] else e)\<rparr>)
       \<and> handleMinify JSON_parse JSON_stringify s
           = Returned (s\<lparr>errorText := (if trim (documentText s) = [] then [] else e)\<rparr>)
       \<and> documentText (stateOf (handleFormat JSON_parse JSON_stringify s)) = documentText s
       \<and> undoStack (stateOf (handleFormat JSON_parse JSON_stringify s)) = undoStack s
       \<and> documentText (stateOf (handleMinify JSON_parse JSON_stringify s)) = documentText s
       \<and> undoStack (stateOf (handleMinify JSON_parse JSON_stringify s)) = undoStack s"
  using assms by (simp add: handleFormat_def handleMinify_def Let_def)

theorem format_minify_atomic_on_error_witness:
  "error (fixJson (\<lambda>s. if s = ''{a: }'' then Inl ''Unexpected token a at position 1''
                        else (Inl ''Unexpected token } at position 6'' :: string + unit))
            (trim (documentText (initialSession\<lparr>documentText := ''{a: }'', undoStack := [''[]''], undoLen := 1\<rparr>))))
     = Some ''Unexpected token a at position 1''
   \<and> handleFormat (\<lambda>s. if s = ''{a: }'' then Inl ''Unexpected token a at position 1''
                        else (Inl ''Unexpected token } at position 6'' :: string + unit))
        (\<lambda>v n. ''null'')
        (initialSession\<lparr>documentText := ''{a: }'', undoStack := [''[]''], undoLen := 1\<rparr>)
     = Returned (initialSession\<lparr>documentText := ''{a: }'', undoStack := [''[]''], undoLen := 1,
                                errorText := ''Unexpected token a at position 1''\<rparr>)
   \<and> handleMinify (\<lambda>s. if s = ''{a: }'' then Inl ''Unexpected token a at position 1''
                        else (Inl ''Unexpected token } at position 6'' :: string + unit))
        (\<lambda>v n. ''null'')
        (initialSession\<lparr>documentText := ''{a: }'', undoStack := [''[]''], undoLen := 1\<rparr>)
     = Returned (initialSession\<lparr>documentText := ''{a: }'', undoStack := [''[]''], undoLen := 1,
                                errorText := ''Unexpected token a at position 1''\<rparr>)"
proof -
  let ?P = "\<lambda>s. if s = ''{a: }'' then Inl ''Unexpected token a at position 1''
                else (Inl ''Unexpected token } at position 6'' :: string + unit)"
  let ?s = "initialSession\<lparr>documentText := ''{a: }'', undoStack := [''[]''], undoLen := 1\<rparr>"
  have t: "trim (documentText ?s) = ''{a: }''"
    by (simp add: trim_def isSpace_def)
  have r: "repairPasses ''{a: }'' = ''{\"a\": }''"
    by code_simp
  have e: "error (fixJson ?P (trim (documentText ?s))) = Some ''Unexpected token a at position 1''"
    unfolding t by (simp add: fixJson_def r trim_def isSpace_def)
  show ?thesis
    using e t format_minify_atomic_on_error[of ?P ?s "''Unexpected token a at position 1''" "\<lambda>v n. ''null''", OF e]
    by simp
qed

text \<open>
  C10. An undo with a non-empty stack pops the newest entry, restores it as the document
  text, and sets the view mode to raw edit, the error banner to empty and the active
  snippet to none (and shows its toast); the view mode, error and snippet the session had
  before the undo have no influence on the state after it. Every other field of the
  component is left as it was.
\<close>

theorem undo_resets_view_error_snippet:
  assumes "undoStack s = prev # rest"
  shows "handleUndo s
           = s\<lparr>undoStack := rest, undoLen := length rest, documentText := prev,
               errorText := [], viewMode := EditView, activeId := None, toast := ToastUndone\<rparr>
       \<and> handleUndo (s\<lparr>viewMode := m, errorText := e, activeId := a\<rparr>) = handleUndo s"
  using assms by (simp add: handleUndo_def setValue_def)

theorem undo_resets_view_error_snippet_witness:
  "handleUndo (initialSession\<lparr>viewMode := TreeView, documentText := ''[1]'', formattedVal := ''[1]'',
                               errorText := ''Failed to fetch'', activeId := Some 7,
                               undoStack := [''[1,]'', ''{}''], undoLen := 2\<rparr>)
     = initialSession\<lparr>viewMode := EditView, documentText := ''[1,]'', formattedVal := ''[1]'',
                        errorText := [], activeId := None, toast := ToastUndone,
                        undoStack := [''{}''], undoLen := 1\<rparr>"
  using undo_resets_view_error_snippet
    [where s = "initialSession\<lparr>viewMode := TreeView, documentText := ''[1]'', formattedVal := ''[1]'',
                               errorText := ''Failed to fetch'', activeId := Some 7,
                               undoStack := [''[1,]'', ''{}''], undoLen := 2\<rparr>"
       and prev = "''[1,]''" and rest = "[''{}'']" and m = TreeView and e = "[]" and a = None]
  by (simp add: initialSession_def)

section \<open>Properties of the tree view\<close>

text \<open>
  C6, at the failing input: a node with the key \<open>a\<close> and the value \<open>null\<close>, searched for
  \<open>null\<close>. \<open>String(null)\<close> is \<open>null\<close> and contains the term, but \<open>matchesSearch\<close> tests
  \<open>value !== null && typeof value !== 'object'\<close> and so never looks at a \<open>null\<close> value, in
  \<open>JsonNode\<close> and in \<open>JsonItem\<close> alike. The \<open>recurse\<close> of the same component tests
  \<open>v === null || typeof v !== 'object'\<close> and does match \<open>null\<close> by its text: the parent
  \<open>{"a": null}\<close> has a matching descendant that itself does not match.
\<close>

theorem matchesSearch_skips_null:
  "\<not> matchesSearch showNat (Some ''a'') JNull ''null''
   \<and> \<not> matchesSearchItem showNat (Some ''a'') JNull ''null''
   \<and> includes_str (toLowerCase (String_of showNat JNull)) ''null''
   \<and> recurse showNat ''null'' (JObj [(''a'', JNull)])"
  by code_simp

lemma JsonNode_instance:
  "inst \<in> set (JsonNode st N t f path key v depth) \<Longrightarrow>
     nodeDepth inst + length path = depth + length (nodePath inst)
     \<and> nodeCollapsed inst = useState st (nodePath inst) (3 < nodeDepth inst)"
proof (induction st N t f path key v depth arbitrary: inst rule: JsonNode.induct)
  case (1 st N t f path key v depth)
  let ?self = "\<lparr>nodePath = path, nodeKey = key, nodeValue = v, nodeDepth = depth,
                nodeCollapsed = useState st path (3 < depth)\<rparr>"
  show ?case
  proof (cases "inst = ?self")
    case True
    then show ?thesis by simp
  next
    case False
    with "1.prems" have c1: "\<not> (f \<and> \<not> hasMatchingDescendant N key v t)"
      and c2: "\<not> isNull v" and c3: "\<not> typeof v \<noteq> T_object" and c4: "entries v \<noteq> []"
      and c5: "\<not> useState st path (3 < depth) \<or> (t \<noteq> [] \<and> hasMatchingDescendant N key v t)"
      by (auto simp: JsonNode.simps[of st N t f path key v depth] split: if_splits)
    with False "1.prems" obtain ikv where
      ikv: "ikv \<in> set (zip [0..<length (entries v)] (entries v))"
      and inst: "inst \<in> set (JsonNode st N t f (path @ [fst ikv])
                         (if isArray v then None else Some (fst (snd ikv))) (snd (snd ikv)) (depth + 1))"
      by (auto simp: JsonNode.simps[of st N t f path key v depth] split: if_splits)
    from "1.IH"[OF c1 c2 c3 c4 c5 ikv inst] show ?thesis by simp
  qed
qed

lemma JsonItem_instance:
  "inst \<in> set (JsonItem st N t f path key v) \<Longrightarrow>
     itemCollapsed inst = useState st (itemPath inst) False"
proof (induction st N t f path key v arbitrary: inst rule: JsonItem.induct)
  case (1 st N t f path key v)
  let ?self = "\<lparr>itemPath = path, itemKey = key, itemValue = v,
                itemCollapsed = useState st path False\<rparr>"
  show ?case
  proof (cases "inst = ?self")
    case True
    then show ?thesis by simp
  next
    case False
    with "1.prems" have c1: "\<not> (f \<and> \<not> hasMatchingChildren N key v t)"
      and c2: "\<not> isNull v" and c3: "\<not> typeof v \<noteq> T_object" and c4: "entries v \<noteq> []"
      and c5: "\<not> (useState st path False \<and> \<not> (t \<noteq> [] \<and> hasMatchingChildren N key v t))"
      by (auto simp: JsonItem.simps[of st N t f path key v] split: if_splits)
    with False "1.prems" obtain ikv where
      ikv: "ikv \<in> set (zip [0..<length (entries v)] (entries v))"
      and inst: "inst \<in> set (JsonItem st N t f (path @ [fst ikv])
                         (if isArray v then None else Some (fst (snd ikv))) (snd (snd ikv)))"
      by (auto simp: JsonItem.simps[of st N t f path key v] split: if_splits)
    from "1.IH"[OF c1 c2 c3 c4 c5 ikv inst] show ?thesis by simp
  qed
qed


text \<open>
  C7 as claimed fails in \<open>JsonOutput\<close>: in the tree of \<open>[[[[[[1]]]]]]\<close>, mounted with an
  empty store, the container at the place \<open>[0, 0, 0, 0]\<close> (depth 4) is not collapsed.
\<close>

theorem JsonItem_never_collapsed_by_default:
  "JsonOutput Map.empty showNat [] False deepArray ! 4
     = \<lparr>itemPath = [0, 0, 0, 0], itemKey = None, itemValue = JArr [JArr [JNum 1]],
        itemCollapsed = False\<rparr>
   \<and> JsonOutput Map.empty showNat [] False deepArray ! 4
       \<in> set (JsonOutput Map.empty showNat [] False deepArray)
   \<and> 3 < length [0, 0, 0, 0 :: nat]"
  by code_simp

text \<open>
  C7, amended. In \<open>JsonTreeView\<close> every node (so every container node) a render visits
  sits at the depth that is the length of its path from the root, the root at depth 0,
  and the first time its path is encountered (no flag in the store) it is collapsed
  exactly when that depth exceeds 3. In \<open>JsonOutput\<close> a node encountered for the first
  time is expanded, at every depth.
\<close>

theorem default_collapse_by_component:
  "(inst \<in> set (JsonTreeView st numToString searchTerm filterMode data)
      \<and> st (nodePath inst) = None \<longrightarrow>
        nodeDepth inst = length (nodePath inst) \<and> (nodeCollapsed inst \<longleftrightarrow> 3 < nodeDepth inst))
   \<and> (item \<in> set (JsonOutput st numToString searchTerm filterMode data)
      \<and> st (itemPath item) = None \<longrightarrow> \<not> itemCollapsed item)"
proof (intro conjI impI)
  assume a: "inst \<in> set (JsonTreeView st numToString searchTerm filterMode data) \<and> st (nodePath inst) = None"
  then have "nodeDepth inst + length ([] :: nat list) = 0 + length (nodePath inst)
     \<and> nodeCollapsed inst = useState st (nodePath inst) (3 < nodeDepth inst)"
    unfolding JsonTreeView_def by (intro JsonNode_instance) blast
  with a show "nodeDepth inst = length (nodePath inst)"
    and "nodeCollapsed inst \<longleftrightarrow> 3 < nodeDepth inst"
    by (simp_all add: useState_def)
next
  assume a: "item \<in> set (JsonOutput st numToString searchTerm filterMode data) \<and> st (itemPath item) = None"
  then have "item \<in> set (JsonItem st numToString (toLowerCase searchTerm) filterMode [] None data)"
    by (simp add: JsonOutput_def split: if_splits)
  then have "itemCollapsed item = useState st (itemPath item) False"
    by (rule JsonItem_instance)
  with a show "\<not> itemCollapsed item" by (simp add: useState_def)
qed

text \<open>
  In the tree of \<open>[[[[[[1]]]]]]\<close> the container at depth 4 starts collapsed and the one
  at depth 3 expanded; in \<open>JsonOutput\<close> the container at depth 4 starts expanded.
\<close>

theorem default_collapse_by_component_witness:
  "JsonTreeView Map.empty showNat [] False deepArray ! 4
     \<in> set (JsonTreeView Map.empty showNat [] False deepArray)
   \<and> nodePath (JsonTreeView Map.empty showNat [] False deepArray ! 4) = [0, 0, 0, 0]
   \<and> nodeDepth (JsonTreeView Map.empty showNat [] False deepArray ! 4) = 4
   \<and> nodeCollapsed (JsonTreeView Map.empty showNat [] False deepArray ! 4)
   \<and> JsonTreeView Map.empty showNat [] False deepArray ! 3
     \<in> set (JsonTreeView Map.empty showNat [] False deepArray)
   \<and> nodePath (JsonTreeView Map.empty showNat [] False deepArray ! 3) = [0, 0, 0]
   \<and> nodeDepth (JsonTreeView Map.empty showNat [] False deepArray ! 3) = 3
   \<and> \<not> nodeCollapsed (JsonTreeView Map.empty showNat [] False deepArray ! 3)
   \<and> JsonOutput Map.empty showNat [] False deepArray ! 4
     \<in> set (JsonOutput Map.empty showNat [] False deepArray)
   \<and> itemPath (JsonOutput Map.empty showNat [] False deepArray ! 4) = [0, 0, 0, 0]
   \<and> \<not> itemCollapsed (JsonOutput Map.empty showNat [] False deepArray ! 4)"
proof -
  let ?tree = "JsonTreeView Map.empty showNat [] False deepArray"
  let ?out = "JsonOutput Map.empty showNat [] False deepArray"
  have n4: "?tree ! 4 \<in> set ?tree" and n3: "?tree ! 3 \<in> set ?tree" and i4: "?out ! 4 \<in> set ?out"
    by code_simp+
  have p4: "nodePath (?tree ! 4) = [0, 0, 0, 0]" and p3: "nodePath (?tree ! 3) = [0, 0, 0]"
    and q4: "itemPath (?out ! 4) = [0, 0, 0, 0]"
    by code_simp+
  note c = default_collapse_by_component[where st = Map.empty and numToString = showNat
      and searchTerm = "[]" and filterMode = False and data = deepArray]
  from c[where inst = "?tree ! 4"] n4 p4
  have c4: "nodeDepth (?tree ! 4) = 4 \<and> nodeCollapsed (?tree ! 4)" by simp
  from c[where inst = "?tree ! 3"] n3 p3
  have c3: "nodeDepth (?tree ! 3) = 3 \<and> \<not> nodeCollapsed (?tree ! 3)" by simp
  from c[where item = "?out ! 4"] i4
  have d4: "\<not> itemCollapsed (?out ! 4)" by simp
  from n4 p4 c4 n3 p3 c3 i4 q4 d4 show ?thesis by blast
qed

section \<open>Properties of the path evaluator\<close>

lemma of_char_digit: "n < 10 \<Longrightarrow> (of_char (char_of (48 + n)) :: nat) = 48 + n"
  by simp

lemma parseNat_snoc: "parseNat (ds @ [c]) = 10 * parseNat ds + (of_char c - 48)"
  by (simp add: parseNat_def)

lemma parseNat_showNat: "parseNat (showNat n) = n"
proof (induction n rule: showNat.induct)
  case (1 n)
  show ?case
  proof (cases "n < 10")
    case True
    then show ?thesis by (subst showNat.simps) (simp add: parseNat_def)
  next
    case False
    have "n mod 10 < 10" by simp
    then have d: "(of_char (char_of (48 + n mod 10)) :: nat) = 48 + n mod 10"
      by (rule of_char_digit)
    from False have "showNat n = showNat (n div 10) @ [char_of (48 + n mod 10)]"
      by (subst showNat.simps) simp
    then have "parseNat (showNat n) = 10 * parseNat (showNat (n div 10)) + n mod 10"
      by (simp only: parseNat_snoc d add_diff_cancel_left')
    with "1.IH"[OF False] show ?thesis by simp
  qed
qed

lemma isDigit_digit: "(n::nat) < 10 \<Longrightarrow> isDigit (char_of (48 + n))"
  by (simp add: isDigit_def)

lemma digits_showNat: "list_all isDigit (showNat n)"
proof (induction n rule: showNat.induct)
  case (1 n)
  show ?case
  proof (cases "n < 10")
    case True
    then show ?thesis by (subst showNat.simps) (simp add: isDigit_digit)
  next
    case False
    have "isDigit (char_of (48 + n mod 10))" by (rule isDigit_digit) simp
    with "1.IH"[OF False] False show ?thesis by (subst showNat.simps) simp
  qed
qed

lemma hd_showNat: "0 < n \<Longrightarrow> hd (showNat n) \<noteq> CHR ''0''"
proof (induction n rule: showNat.induct)
  case (1 n)
  show ?case
  proof (cases "n < 10")
    case True
    with "1.prems" have "(of_char (char_of (48 + n)) :: nat) \<noteq> of_char (CHR ''0'')"
      by simp
    then have "char_of (48 + n) \<noteq> CHR ''0''" by metis
    with True show ?thesis by (subst showNat.simps) simp
  next
    case False
    then have "0 < n div 10" by simp
    from "1.IH"[OF False this] False show ?thesis
      by (subst showNat.simps) (simp add: showNat_nonempty)
  qed
qed

lemma length_showNat_small: "n < 10 \<Longrightarrow> length (showNat n) = 1"
  by (subst showNat.simps) simp

lemma isIndexName_showNat: "isIndexName (showNat n)"
proof (cases "n = 0")
  case True
  then show ?thesis
    by (simp add: isIndexName_def digits_showNat showNat_nonempty length_showNat_small)
next
  case False
  then show ?thesis
    by (simp add: isIndexName_def digits_showNat showNat_nonempty hd_showNat)
qed

lemma ownProperty_array: "ownProperty (JArr xs) (showNat n) = (if n < length xs then Some (xs ! n) else None)"
  by (simp add: isIndexName_showNat parseNat_showNat)

lemma ownProperty_string:
  "ownProperty (JStr s) (showNat n) = (if n < length s then Some (JStr [s ! n]) else None)"
  by (simp add: isIndexName_showNat parseNat_showNat)

































end
